theory Spec2Isabelle
  imports Main
begin

section \<open>Page and page-type mutations (saleor/graphql/page/mutations.py)\<close>

subsection \<open>Attributes, error codes and validation errors\<close>

text \<open>
  Modelled from the spec: \<open>AttributeType\<close> (declared in \<open>saleor/product\<close>, outside this
  module). An attribute has a kind, and only the kind \<open>PAGE_TYPE\<close> may associate with a page
  type. The module only compares \<open>attr.type\<close> with \<open>AttributeType.PAGE_TYPE\<close>; the second
  constructor stands for the kinds that are not \<open>PAGE_TYPE\<close>.
\<close>

datatype AttributeType = PAGE_TYPE | PRODUCT_TYPE

text \<open>
  An attribute entity as the module reads it: \<open>attr.pk\<close> and \<open>attr.type\<close>. Python compares two
  entities by primary key; the entities of one cleaned input are rows of one table, so two
  of them with the same primary key are the same record.
\<close>

record Attribute =
  pk :: int
  type :: AttributeType

text \<open>
  \<open>graphene.Node.to_global_id\<close> is library code. Its encoding is not interpreted: a global
  id is kept as the type name and the primary key it was built from.
\<close>

datatype global_id = to_global_id string int

text \<open>
  Modelled from the spec: \<open>PageErrorCode\<close> (declared in \<open>saleor/page/error_codes\<close>, outside
  this module), with the members the module names. The source sets an error's code either
  to the member itself (\<open>PageErrorCode.REQUIRED\<close>) or to its value
  (\<open>PageErrorCode.REQUIRED.value\<close>); \<open>error_code\<close> keeps both forms apart and \<open>code_name\<close>
  gives the member either form names.
\<close>

datatype PageErrorCode = REQUIRED | INVALID | DUPLICATED_INPUT_ITEM

datatype error_code = Member PageErrorCode | MemberValue PageErrorCode

fun code_name :: "error_code \<Rightarrow> PageErrorCode" where
  "code_name (Member c) = c"
| "code_name (MemberValue c) = c"

text \<open>
  The \<open>params\<close> of the module's errors are a dict with the single key \<open>attributes\<close>, bound
  either to a list of global ids (attribute validation) or to the collection of entries
  found in both lists (duplicate detection).
\<close>

datatype param = GlobalIds "global_id list" | Duplicates "Attribute set"

record ValidationError =
  message :: string
  code :: "error_code option"
  params :: "(string \<times> param) list"

text \<open>
  The error accumulator \<open>errors = defaultdict(list)\<close>: keys in insertion order, each bound
  to the list of errors appended under it. \<open>errors[field].append(error)\<close> creates the key
  when it is missing; \<open>if errors:\<close> asks whether any key exists. A raised
  \<open>ValidationError(errors)\<close> carries the same mapping.
\<close>

type_synonym errors = "(string \<times> ValidationError list) list"

fun append_error :: "errors \<Rightarrow> string \<Rightarrow> ValidationError \<Rightarrow> errors" where
  "append_error [] field error = [(field, [error])]"
| "append_error ((k, es) # rest) field error =
     (if k = field then (k, es @ [error]) # rest
      else (k, es) # append_error rest field error)"

definition errors_at :: "errors \<Rightarrow> string \<Rightarrow> ValidationError list" where
  "errors_at errors field = (case map_of errors field of None \<Rightarrow> [] | Some es \<Rightarrow> es)"

subsection \<open>PageTypeMixin.validate_attributes\<close>

text \<open>
  \<open>attributes\<close> is what \<open>cleaned_input.get(field)\<close> returned: \<open>None\<close> when the input has no
  such list, otherwise the list of attribute entities. \<open>if attributes:\<close> is false for
  \<open>None\<close> and for the empty list. The accumulator is mutated in place; the model returns it.
\<close>

definition validate_attributes :: "errors \<Rightarrow> Attribute list option \<Rightarrow> string \<Rightarrow> errors" where
  "validate_attributes errors attributes field =
     (case attributes of
        None \<Rightarrow> errors
      | Some attrs \<Rightarrow>
          if attrs \<noteq> [] then
            (let not_valid_attributes =
                   [to_global_id ''Attribute'' (pk attr). attr \<leftarrow> attrs, type attr \<noteq> PAGE_TYPE]
             in if not_valid_attributes \<noteq> [] then
                  append_error errors field
                    \<lparr>message = ''Only page type attributes allowed.'',
                     code = Some (MemberValue INVALID),
                     params = [(''attributes'', GlobalIds not_valid_attributes)]\<rparr>
                else errors)
          else errors)"

text \<open>The attributes of a possibly absent list whose kind is not \<open>PAGE_TYPE\<close>, in order.\<close>

definition offending :: "Attribute list option \<Rightarrow> Attribute list" where
  "offending attributes =
     (case attributes of None \<Rightarrow> [] | Some attrs \<Rightarrow> filter (\<lambda>attr. type attr \<noteq> PAGE_TYPE) attrs)"

definition invalid_error :: "Attribute list \<Rightarrow> ValidationError" where
  "invalid_error attrs =
     \<lparr>message = ''Only page type attributes allowed.'',
      code = Some (MemberValue INVALID),
      params = [(''attributes'', GlobalIds (map (\<lambda>attr. to_global_id ''Attribute'' (pk attr)) attrs))]\<rparr>"

subsection \<open>Input types\<close>

text \<open>
  Modelled from the spec: \<open>SeoInput\<close> (declared in \<open>graphql/core/types/common\<close>, outside this
  module), the input object \<open>seo{title, description}\<close>.
\<close>

record SeoInput =
  title :: "string option"
  description :: "string option"

text \<open>
  The cleaned input of a mutation is a dict with the keys of its input type; a field is
  \<open>None\<close> when the request leaves it out, which is all \<open>cleaned_input.get(key)\<close> tells.
  The functions below take the dict that \<open>super().clean_input(info, instance, data)\<close>
  returned (the base class resolves the ids of \<open>add_attributes\<close> and \<open>remove_attributes\<close> to
  attribute entities); \<open>info\<close> is not used by the module and is left out.
\<close>

record PageInput =
  slug :: "string option"
  title :: "string option"
  content :: "string option"
  content_json :: "string option"
  is_published :: "bool option"
  publication_date :: "string option"
  seo :: "SeoInput option"

record PageTypeCreateInput =
  name :: "string option"
  slug :: "string option"
  add_attributes :: "Attribute list option"

record PageTypeUpdateInput = PageTypeCreateInput +
  remove_attributes :: "Attribute list option"

subsection \<open>Arguments of the mutations\<close>

text \<open>
  An argument declaration such as \<open>graphene.ID(required=True, description=...)\<close>. Graphene
  takes \<open>required\<close> as \<open>False\<close> when the keyword is not given, and exposes a required
  argument as the non-null type.
\<close>

datatype graphene_type = ID | InputObjectType string | NonNull graphene_type

record argument =
  of_type :: graphene_type
  required :: bool
  description :: string

definition argument_type :: "argument \<Rightarrow> graphene_type" where
  "argument_type a = (if required a then NonNull (of_type a) else of_type a)"

definition PageCreate_Arguments :: "(string \<times> argument) list" where
  "PageCreate_Arguments =
     [(''input'', \<lparr>of_type = InputObjectType ''PageInput'', required = True,
                   description = ''Fields required to create a page.''\<rparr>)]"

definition PageUpdate_Arguments :: "(string \<times> argument) list" where
  "PageUpdate_Arguments =
     [(''id'', \<lparr>of_type = ID, required = True, description = ''ID of a page to update.''\<rparr>),
      (''input'', \<lparr>of_type = InputObjectType ''PageInput'', required = True,
                   description = ''Fields required to update a page.''\<rparr>)]"

definition PageDelete_Arguments :: "(string \<times> argument) list" where
  "PageDelete_Arguments =
     [(''id'', \<lparr>of_type = ID, required = True, description = ''ID of a page to delete.''\<rparr>)]"

definition PageTypeCreate_Arguments :: "(string \<times> argument) list" where
  "PageTypeCreate_Arguments =
     [(''input'', \<lparr>of_type = InputObjectType ''PageTypeCreateInput'', required = True,
                   description = ''Fields required to create page type.''\<rparr>)]"

definition PageTypeUpdate_Arguments :: "(string \<times> argument) list" where
  "PageTypeUpdate_Arguments =
     [(''id'', \<lparr>of_type = ID, required = False, description = ''ID of the page type to update.''\<rparr>),
      (''input'', \<lparr>of_type = InputObjectType ''PageTypeUpdateInput'', required = True,
                   description = ''Fields required to update page type.''\<rparr>)]"

text \<open>The type under which the schema exposes the named argument, if it is declared.\<close>

definition schema_type :: "(string \<times> argument) list \<Rightarrow> string \<Rightarrow> graphene_type option" where
  "schema_type arguments arg = map_option argument_type (map_of arguments arg)"

subsection \<open>PageCreate.clean_input and PageUpdate\<close>

text \<open>
  \<open>validate_slug\<close> stands for the imported \<open>validate_slug_and_generate_if_needed\<close> and
  \<open>clean_seo_fields\<close> for the imported function of that name, which edits the dict in
  place. A raised \<open>ValidationError\<close> is \<open>Inl\<close> of its field mapping.
\<close>

definition PageCreate_clean_input ::
  "('i \<Rightarrow> string \<Rightarrow> PageInput \<Rightarrow> ValidationError + PageInput) \<Rightarrow> (PageInput \<Rightarrow> 'c)
     \<Rightarrow> 'i \<Rightarrow> PageInput \<Rightarrow> errors + 'c" where
  "PageCreate_clean_input validate_slug clean_seo_fields instance cleaned_input =
     (case validate_slug instance ''title'' cleaned_input of
        Inl error \<Rightarrow> Inl [(''slug'', [error\<lparr>code := Some (Member REQUIRED)\<rparr>])]
      | Inr cleaned_input \<Rightarrow> Inr (clean_seo_fields cleaned_input))"

text \<open>
  \<open>class PageUpdate(PageCreate)\<close> declares only \<open>Arguments\<close> and \<open>Meta\<close>; its
  \<open>clean_input\<close> is the inherited method.
\<close>

definition PageUpdate_clean_input ::
  "('i \<Rightarrow> string \<Rightarrow> PageInput \<Rightarrow> ValidationError + PageInput) \<Rightarrow> (PageInput \<Rightarrow> 'c)
     \<Rightarrow> 'i \<Rightarrow> PageInput \<Rightarrow> errors + 'c" where
  "PageUpdate_clean_input = PageCreate_clean_input"

subsection \<open>PageTypeCreate\<close>

definition PageTypeCreate_clean_input ::
  "('i \<Rightarrow> string \<Rightarrow> 'a PageTypeCreateInput_scheme \<Rightarrow> ValidationError + 'a PageTypeCreateInput_scheme)
     \<Rightarrow> 'i \<Rightarrow> 'a PageTypeCreateInput_scheme \<Rightarrow> errors + 'a PageTypeCreateInput_scheme" where
  "PageTypeCreate_clean_input validate_slug instance cleaned_input =
     (let errors = [];
          (cleaned_input, errors) =
            (case validate_slug instance ''name'' cleaned_input of
               Inl error \<Rightarrow>
                 (cleaned_input, append_error errors ''slug'' (error\<lparr>code := Some (MemberValue REQUIRED)\<rparr>))
             | Inr cleaned_input' \<Rightarrow> (cleaned_input', errors));
          errors = validate_attributes errors (add_attributes cleaned_input) ''add_attributes''
      in if errors \<noteq> [] then Inl errors else Inr cleaned_input)"

text \<open>
  The page type at hand with its association set: \<open>page_attributes\<close> holds the primary keys
  of the attributes related to it; the other columns are the record's extension. The
  related manager's \<open>add\<close> and \<open>remove\<close> are ORM code: they relate, or stop relating, the
  given entities by primary key.
\<close>

record PageType =
  page_attributes :: "int set"

definition page_attributes_add :: "'a PageType_scheme \<Rightarrow> Attribute list \<Rightarrow> 'a PageType_scheme" where
  "page_attributes_add instance attributes =
     instance\<lparr>page_attributes := page_attributes instance \<union> pk ` set attributes\<rparr>"

definition page_attributes_remove :: "'a PageType_scheme \<Rightarrow> Attribute list \<Rightarrow> 'a PageType_scheme" where
  "page_attributes_remove instance attributes =
     instance\<lparr>page_attributes := page_attributes instance - pk ` set attributes\<rparr>"

text \<open>\<open>super_save_m2m\<close> stands for the base class's \<open>_save_m2m\<close>, called first.\<close>

definition PageTypeCreate_save_m2m ::
  "('a PageType_scheme \<Rightarrow> 'b PageTypeCreateInput_scheme \<Rightarrow> 'a PageType_scheme)
     \<Rightarrow> 'a PageType_scheme \<Rightarrow> 'b PageTypeCreateInput_scheme \<Rightarrow> 'a PageType_scheme" where
  "PageTypeCreate_save_m2m super_save_m2m instance cleaned_data =
     (let instance = super_save_m2m instance cleaned_data;
          attributes = add_attributes cleaned_data
      in case attributes of
           None \<Rightarrow> instance
         | Some attrs \<Rightarrow> page_attributes_add instance attrs)"

subsection \<open>PageTypeUpdate\<close>

text \<open>
  Modelled from the spec: \<open>get_duplicates_ids\<close> (imported from \<open>graphql/core/utils\<close>, not in
  this module). Given two collections, it computes their intersection; a collection that
  is \<open>None\<close> has no entries.
\<close>

definition get_duplicates_ids :: "'a list option \<Rightarrow> 'a list option \<Rightarrow> 'a set" where
  "get_duplicates_ids first_list second_list =
     (case first_list of
        None \<Rightarrow> {}
      | Some xs \<Rightarrow> (case second_list of None \<Rightarrow> {} | Some ys \<Rightarrow> set xs \<inter> set ys))"

text \<open>
  Primed names are the source's locals and parameters \<open>add_attributes\<close> and
  \<open>remove_attributes\<close>, which would otherwise read as the fields of the input records.
\<close>

definition check_for_duplicates ::
  "errors \<Rightarrow> Attribute list option \<Rightarrow> Attribute list option \<Rightarrow> errors" where
  "check_for_duplicates errors add_attributes' remove_attributes' =
     (let duplicated_ids = get_duplicates_ids add_attributes' remove_attributes'
      in if duplicated_ids \<noteq> {} then
           append_error errors ''attributes''
             \<lparr>message = ''The same object cannot be in both listfor adding and removing items.'',
              code = Some (MemberValue DUPLICATED_INPUT_ITEM),
              params = [(''attributes'', Duplicates duplicated_ids)]\<rparr>
         else errors)"

definition PageTypeUpdate_clean_input ::
  "('i \<Rightarrow> string \<Rightarrow> 'a PageTypeUpdateInput_scheme \<Rightarrow> ValidationError + 'a PageTypeUpdateInput_scheme)
     \<Rightarrow> 'i \<Rightarrow> 'a PageTypeUpdateInput_scheme \<Rightarrow> errors + 'a PageTypeUpdateInput_scheme" where
  "PageTypeUpdate_clean_input validate_slug instance cleaned_input =
     (let errors = [];
          (cleaned_input, errors) =
            (case validate_slug instance ''name'' cleaned_input of
               Inl error \<Rightarrow>
                 (cleaned_input, append_error errors ''slug'' (error\<lparr>code := Some (Member REQUIRED)\<rparr>))
             | Inr cleaned_input' \<Rightarrow> (cleaned_input', errors));
          add_attributes' = add_attributes cleaned_input;
          errors = validate_attributes errors add_attributes' ''add_attributes'';
          remove_attributes' = remove_attributes cleaned_input;
          errors = validate_attributes errors remove_attributes' ''remove_attributes'';
          errors = check_for_duplicates errors (add_attributes cleaned_input) remove_attributes'
      in if errors \<noteq> [] then Inl errors else Inr cleaned_input)"

text \<open>
  The local \<open>attributes\<close> is bound to the \<open>remove_attributes\<close> value and then rebound to the
  \<open>add_attributes\<close> value; both \<open>if attributes is not None\<close> tests read the second binding.
\<close>

definition PageTypeUpdate_save_m2m ::
  "('a PageType_scheme \<Rightarrow> 'b PageTypeUpdateInput_scheme \<Rightarrow> 'a PageType_scheme)
     \<Rightarrow> 'a PageType_scheme \<Rightarrow> 'b PageTypeUpdateInput_scheme \<Rightarrow> 'a PageType_scheme" where
  "PageTypeUpdate_save_m2m super_save_m2m instance cleaned_data =
     (let instance = super_save_m2m instance cleaned_data;
          attributes = remove_attributes cleaned_data;
          attributes = add_attributes cleaned_data;
          instance = (case attributes of
                        None \<Rightarrow> instance
                      | Some attrs \<Rightarrow> page_attributes_remove instance attrs);
          instance = (case attributes of
                        None \<Rightarrow> instance
                      | Some attrs \<Rightarrow> page_attributes_add instance attrs)
      in instance)"

subsection \<open>Collaborators outside the module\<close>

text \<open>
  Modelled from the spec: \<open>validate_slug_and_generate_if_needed\<close> (imported from
  \<open>graphql/core/utils\<close>, not in this module). Input: an instance, a source field name and a
  cleaned-input mapping. Output: the cleaned input with a slug, generated from the source
  field if absent. Failure: raises a validation error if neither slug nor source field is
  available. The spec fixes neither the slug generator nor the text of the error, so both
  are arguments (\<open>generate_unique_slug\<close>, \<open>slug_error\<close>), as are the reading of a string field
  by its key and the writing of the slug (\<open>get\<close>, \<open>set_slug\<close>).
\<close>

definition validate_slug_and_generate_if_needed ::
  "('i \<Rightarrow> string \<Rightarrow> string) \<Rightarrow> ValidationError \<Rightarrow> ('c \<Rightarrow> string \<Rightarrow> string option)
     \<Rightarrow> (string \<Rightarrow> 'c \<Rightarrow> 'c) \<Rightarrow> 'i \<Rightarrow> string \<Rightarrow> 'c \<Rightarrow> ValidationError + 'c" where
  "validate_slug_and_generate_if_needed generate_unique_slug slug_error get set_slug
       instance slugable_field cleaned_input =
     (case get cleaned_input ''slug'' of
        Some given \<Rightarrow> Inr cleaned_input
      | None \<Rightarrow>
          (case get cleaned_input slugable_field of
             Some source \<Rightarrow> Inr (set_slug (generate_unique_slug instance source) cleaned_input)
           | None \<Rightarrow> Inl slug_error))"

text \<open>The string fields of the two input types by key, and the writing of their slug.\<close>

definition PageInput_get :: "PageInput \<Rightarrow> string \<Rightarrow> string option" where
  "PageInput_get cleaned_input key =
     (if key = ''slug'' then PageInput.slug cleaned_input
      else if key = ''title'' then PageInput.title cleaned_input
      else if key = ''content'' then content cleaned_input
      else if key = ''content_json'' then content_json cleaned_input
      else if key = ''publication_date'' then publication_date cleaned_input
      else None)"

definition PageInput_set_slug :: "string \<Rightarrow> PageInput \<Rightarrow> PageInput" where
  "PageInput_set_slug s cleaned_input = cleaned_input\<lparr>PageInput.slug := Some s\<rparr>"

definition PageTypeInput_get :: "'a PageTypeCreateInput_scheme \<Rightarrow> string \<Rightarrow> string option" where
  "PageTypeInput_get cleaned_input key =
     (if key = ''slug'' then PageTypeCreateInput.slug cleaned_input
      else if key = ''name'' then name cleaned_input
      else None)"

definition PageTypeInput_set_slug ::
  "string \<Rightarrow> 'a PageTypeCreateInput_scheme \<Rightarrow> 'a PageTypeCreateInput_scheme" where
  "PageTypeInput_set_slug s cleaned_input = cleaned_input\<lparr>PageTypeCreateInput.slug := Some s\<rparr>"

text \<open>
  Modelled from the spec: \<open>ModelMutation.perform_mutation\<close> (the generic base class in
  \<open>graphql/core/mutations\<close>, not in this module). Per invocation:
  Validate, then on failure aggregate the errors and abort, on success persist, associate
  the attributes and respond. The state is the stored page type; the result pairs the
  state after the invocation with the response (the errors, or the object). \<open>save\<close> stands
  for the persistence step of the ORM.
\<close>

definition perform_mutation ::
  "('i \<Rightarrow> 'd \<Rightarrow> errors + 'c) \<Rightarrow> ('i \<Rightarrow> 'c \<Rightarrow> 'i) \<Rightarrow> ('i \<Rightarrow> 'c \<Rightarrow> 'i) \<Rightarrow> 'i \<Rightarrow> 'd
     \<Rightarrow> 'i \<times> (errors + 'i)" where
  "perform_mutation clean_input save save_m2m instance data =
     (case clean_input instance data of
        Inl errors \<Rightarrow> (instance, Inl errors)
      | Inr cleaned_input \<Rightarrow>
          (let instance = save instance cleaned_input;
               instance = save_m2m instance cleaned_input
           in (instance, Inr instance)))"

text \<open>The slug helper of the spec at the two input types.\<close>

definition page_validate_slug ::
  "('i \<Rightarrow> string \<Rightarrow> string) \<Rightarrow> ValidationError \<Rightarrow> 'i \<Rightarrow> string \<Rightarrow> PageInput \<Rightarrow> ValidationError + PageInput" where
  "page_validate_slug generate_unique_slug slug_error =
     validate_slug_and_generate_if_needed generate_unique_slug slug_error PageInput_get PageInput_set_slug"

definition page_type_validate_slug ::
  "('i \<Rightarrow> string \<Rightarrow> string) \<Rightarrow> ValidationError \<Rightarrow> 'i \<Rightarrow> string \<Rightarrow> 'a PageTypeCreateInput_scheme
     \<Rightarrow> ValidationError + 'a PageTypeCreateInput_scheme" where
  "page_type_validate_slug generate_unique_slug slug_error =
     validate_slug_and_generate_if_needed generate_unique_slug slug_error PageTypeInput_get PageTypeInput_set_slug"

subsection \<open>Notions used to state the properties\<close>

text \<open>
  What one run of a page-type \<open>clean_input\<close> puts into the accumulator at each step: the
  entry of the slug step for the result \<open>r\<close> of the slug helper, the cleaned input the
  later steps read, the entry of one attribute validation, and the entry of the duplicate
  check.
\<close>

definition slug_errors :: "error_code \<Rightarrow> ValidationError + 'c \<Rightarrow> errors" where
  "slug_errors c r =
     (case r of Inl error \<Rightarrow> [(''slug'', [error\<lparr>code := Some c\<rparr>])] | Inr _ \<Rightarrow> [])"

definition after_slug :: "'c \<Rightarrow> ValidationError + 'c \<Rightarrow> 'c" where
  "after_slug cleaned_input r = (case r of Inl _ \<Rightarrow> cleaned_input | Inr cleaned_input' \<Rightarrow> cleaned_input')"

definition invalid_errors :: "string \<Rightarrow> Attribute list option \<Rightarrow> errors" where
  "invalid_errors field attributes =
     (if offending attributes = [] then [] else [(field, [invalid_error (offending attributes)])])"

definition duplicated_error :: "Attribute set \<Rightarrow> ValidationError" where
  "duplicated_error duplicated_ids =
     \<lparr>message = ''The same object cannot be in both listfor adding and removing items.'',
      code = Some (MemberValue DUPLICATED_INPUT_ITEM),
      params = [(''attributes'', Duplicates duplicated_ids)]\<rparr>"

definition duplicate_errors :: "Attribute list option \<Rightarrow> Attribute list option \<Rightarrow> errors" where
  "duplicate_errors add_attributes' remove_attributes' =
     (if get_duplicates_ids add_attributes' remove_attributes' = {} then []
      else [(''attributes'', [duplicated_error (get_duplicates_ids add_attributes' remove_attributes')])])"

section \<open>Properties\<close>

subsection \<open>The error accumulator\<close>

lemma errors_at_append_error:
  "errors_at (append_error errors field error) k =
     (if k = field then errors_at errors field @ [error] else errors_at errors k)"
  by (induction errors field error rule: append_error.induct) (auto simp: errors_at_def)

lemma append_error_not_Nil: "append_error errors field error \<noteq> []"
  by (cases errors) (auto split: if_splits)

lemma not_valid_attributes_eq:
  "[to_global_id ''Attribute'' (pk attr). attr \<leftarrow> attrs, type attr \<noteq> PAGE_TYPE] =
     map (\<lambda>attr. to_global_id ''Attribute'' (pk attr)) (filter (\<lambda>attr. type attr \<noteq> PAGE_TYPE) attrs)"
  by (induction attrs) auto

lemma validate_attributes_eq:
  "validate_attributes errors attributes field =
     (if offending attributes = [] then errors
      else append_error errors field (invalid_error (offending attributes)))"
  by (cases attributes)
     (auto simp: validate_attributes_def offending_def invalid_error_def not_valid_attributes_eq Let_def
           simp del: concat_map_singleton map_eq_conv)

lemma append_error_fresh:
  "field \<notin> fst ` set errors \<Longrightarrow> append_error errors field error = errors @ [(field, [error])]"
  by (induction errors field error rule: append_error.induct) auto

lemma validate_attributes_fresh:
  "field \<notin> fst ` set errors \<Longrightarrow>
     validate_attributes errors attributes field = errors @ invalid_errors field attributes"
  by (simp add: validate_attributes_eq invalid_errors_def append_error_fresh)

lemma check_for_duplicates_fresh:
  "''attributes'' \<notin> fst ` set errors \<Longrightarrow>
     check_for_duplicates errors a r = errors @ duplicate_errors a r"
  by (simp add: check_for_duplicates_def duplicate_errors_def duplicated_error_def append_error_fresh Let_def)

lemma keys_slug_errors: "fst ` set (slug_errors c r) \<subseteq> {''slug''}"
  by (cases r) (auto simp: slug_errors_def)

lemma keys_invalid_errors: "fst ` set (invalid_errors field attributes) \<subseteq> {field}"
  by (auto simp: invalid_errors_def)

lemma PageTypeCreate_clean_input_eq:
  "PageTypeCreate_clean_input validate_slug instance cleaned_input =
     (let r = validate_slug instance ''name'' cleaned_input;
          cleaned_input' = after_slug cleaned_input r;
          errors = slug_errors (MemberValue REQUIRED) r
                   @ invalid_errors ''add_attributes'' (add_attributes cleaned_input')
      in if errors \<noteq> [] then Inl errors else Inr cleaned_input')"
proof -
  let ?r = "validate_slug instance ''name'' cleaned_input"
  let ?c = "after_slug cleaned_input ?r"
  let ?e1 = "slug_errors (MemberValue REQUIRED) ?r"
  have k1: "fst ` set ?e1 \<subseteq> {''slug''}" by (rule keys_slug_errors)
  have f1: "''add_attributes'' \<notin> fst ` set ?e1" using k1 by auto
  have s1: "validate_attributes ?e1 (add_attributes ?c) ''add_attributes''
              = ?e1 @ invalid_errors ''add_attributes'' (add_attributes ?c)"
    using f1 by (rule validate_attributes_fresh)
  have step: "(case ?r of
               Inl error \<Rightarrow> (cleaned_input, append_error [] ''slug'' (error\<lparr>code := Some (MemberValue REQUIRED)\<rparr>))
             | Inr cleaned_input' \<Rightarrow> (cleaned_input', [])) = (?c, ?e1)"
    by (cases ?r) (simp_all add: slug_errors_def after_slug_def)
  show ?thesis
    unfolding PageTypeCreate_clean_input_def Let_def step
    by (simp add: s1)
qed

lemma PageTypeUpdate_clean_input_eq:
  "PageTypeUpdate_clean_input validate_slug instance cleaned_input =
     (let r = validate_slug instance ''name'' cleaned_input;
          cleaned_input' = after_slug cleaned_input r;
          errors = slug_errors (Member REQUIRED) r
                   @ invalid_errors ''add_attributes'' (add_attributes cleaned_input')
                   @ invalid_errors ''remove_attributes'' (remove_attributes cleaned_input')
                   @ duplicate_errors (add_attributes cleaned_input') (remove_attributes cleaned_input')
      in if errors \<noteq> [] then Inl errors else Inr cleaned_input')"
proof -
  let ?r = "validate_slug instance ''name'' cleaned_input"
  let ?c = "after_slug cleaned_input ?r"
  let ?e1 = "slug_errors (Member REQUIRED) ?r"
  let ?e2 = "?e1 @ invalid_errors ''add_attributes'' (add_attributes ?c)"
  let ?e3 = "?e2 @ invalid_errors ''remove_attributes'' (remove_attributes ?c)"
  have k1: "fst ` set ?e1 \<subseteq> {''slug''}" by (rule keys_slug_errors)
  have k2: "fst ` set ?e2 \<subseteq> {''slug'', ''add_attributes''}"
    using k1 keys_invalid_errors [of "''add_attributes''" "add_attributes ?c"] by auto
  have k3: "fst ` set ?e3 \<subseteq> {''slug'', ''add_attributes'', ''remove_attributes''}"
    using k2 keys_invalid_errors [of "''remove_attributes''" "remove_attributes ?c"] by auto
  have f1: "''add_attributes'' \<notin> fst ` set ?e1" using k1 by auto
  have f2: "''remove_attributes'' \<notin> fst ` set ?e2" using k2 by auto
  have f3: "''attributes'' \<notin> fst ` set ?e3" using k3 by auto
  have s1: "validate_attributes ?e1 (add_attributes ?c) ''add_attributes'' = ?e2"
    using f1 by (rule validate_attributes_fresh)
  have s2: "validate_attributes ?e2 (remove_attributes ?c) ''remove_attributes'' = ?e3"
    using f2 by (rule validate_attributes_fresh)
  have s3: "check_for_duplicates ?e3 (add_attributes ?c) (remove_attributes ?c)
              = ?e3 @ duplicate_errors (add_attributes ?c) (remove_attributes ?c)"
    using f3 by (rule check_for_duplicates_fresh)
  have step: "(case ?r of
               Inl error \<Rightarrow> (cleaned_input, append_error [] ''slug'' (error\<lparr>code := Some (Member REQUIRED)\<rparr>))
             | Inr cleaned_input' \<Rightarrow> (cleaned_input', [])) = (?c, ?e1)"
    by (cases ?r) (simp_all add: slug_errors_def after_slug_def)
  show ?thesis
    unfolding PageTypeUpdate_clean_input_def Let_def step
    by (simp add: s1 s2 s3 del: append_assoc) 
qed

subsection \<open>Attribute-kind validation\<close>

text \<open>
  C3. For every collection of attribute entities and every field name: if some attribute's
  kind is not \<open>PAGE_TYPE\<close>, \<open>validate_attributes\<close> appends exactly one error under the field
  name (the list under that key grows by one entry at its end, every other key keeps its
  list); the error has code \<open>INVALID\<close> and carries the global ids of exactly the attributes
  whose kind is not \<open>PAGE_TYPE\<close>. If the collection is absent, empty or all of kind
  \<open>PAGE_TYPE\<close>, the accumulator is returned as it was.
\<close>

theorem validate_attributes_contract:
  "(offending attributes \<noteq> [] \<longrightarrow>
      errors_at (validate_attributes errors attributes field) field =
        errors_at errors field @
          [\<lparr>message = ''Only page type attributes allowed.'',
            code = Some (MemberValue INVALID),
            params = [(''attributes'',
              GlobalIds (map (\<lambda>attr. to_global_id ''Attribute'' (pk attr)) (offending attributes)))]\<rparr>]
      \<and> (\<forall>k. k \<noteq> field \<longrightarrow>
            errors_at (validate_attributes errors attributes field) k = errors_at errors k))
   \<and> (offending attributes = [] \<longrightarrow> validate_attributes errors attributes field = errors)
   \<and> (attributes = None \<or> attributes = Some [] \<longrightarrow> offending attributes = [])
   \<and> set (offending attributes) =
       {attr. attr \<in> (case attributes of None \<Rightarrow> {} | Some attrs \<Rightarrow> set attrs) \<and> type attr \<noteq> PAGE_TYPE}"
proof -
  have "set (offending attributes) =
       {attr. attr \<in> (case attributes of None \<Rightarrow> {} | Some attrs \<Rightarrow> set attrs) \<and> type attr \<noteq> PAGE_TYPE}"
    by (cases attributes) (auto simp: offending_def)
  moreover have "attributes = None \<or> attributes = Some [] \<longrightarrow> offending attributes = []"
    by (auto simp: offending_def)
  ultimately show ?thesis
    by (simp add: validate_attributes_eq errors_at_append_error invalid_error_def)
qed

theorem validate_attributes_contract_witness:
  "offending (Some [\<lparr>pk = 1, type = PAGE_TYPE\<rparr>, \<lparr>pk = 2, type = PRODUCT_TYPE\<rparr>]) \<noteq> []
   \<and> errors_at (validate_attributes [] (Some [\<lparr>pk = 1, type = PAGE_TYPE\<rparr>, \<lparr>pk = 2, type = PRODUCT_TYPE\<rparr>])
                  ''add_attributes'') ''add_attributes'' =
         [\<lparr>message = ''Only page type attributes allowed.'',
           code = Some (MemberValue INVALID),
           params = [(''attributes'', GlobalIds [to_global_id ''Attribute'' 2])]\<rparr>]
   \<and> offending (Some [\<lparr>pk = 1, type = PAGE_TYPE\<rparr>]) = []
   \<and> validate_attributes [] (Some [\<lparr>pk = 1, type = PAGE_TYPE\<rparr>]) ''add_attributes'' = []"
  using validate_attributes_contract
          [of "Some [\<lparr>pk = 1, type = PAGE_TYPE\<rparr>, \<lparr>pk = 2, type = PRODUCT_TYPE\<rparr>]" "[]" "''add_attributes''"]
        validate_attributes_contract
          [of "Some [\<lparr>pk = 1, type = PAGE_TYPE\<rparr>]" "[]" "''add_attributes''"]
  by (simp add: offending_def errors_at_def)

subsection \<open>The steps of the page-type validation\<close>

lemma page_validate_slug_title:
  "page_validate_slug gen e instance ''title'' ci =
     (case PageInput.slug ci of
        Some s \<Rightarrow> Inr ci
      | None \<Rightarrow> (case PageInput.title ci of
                   Some t \<Rightarrow> Inr (ci\<lparr>PageInput.slug := Some (gen instance t)\<rparr>)
                 | None \<Rightarrow> Inl e))"
  by (simp add: page_validate_slug_def validate_slug_and_generate_if_needed_def PageInput_get_def
        PageInput_set_slug_def split: option.splits)

lemma page_type_validate_slug_name:
  "page_type_validate_slug gen e instance ''name'' ci =
     (case PageTypeCreateInput.slug ci of
        Some s \<Rightarrow> Inr ci
      | None \<Rightarrow> (case name ci of
                   Some t \<Rightarrow> Inr (ci\<lparr>PageTypeCreateInput.slug := Some (gen instance t)\<rparr>)
                 | None \<Rightarrow> Inl e))"
  by (simp add: page_type_validate_slug_def validate_slug_and_generate_if_needed_def PageTypeInput_get_def
        PageTypeInput_set_slug_def split: option.splits)

lemma errors_at_Cons:
  "errors_at ((k, es) # rest) field = (if k = field then es else errors_at rest field)"
  by (simp add: errors_at_def)

lemma errors_at_Nil: "errors_at [] field = []"
  by (simp add: errors_at_def)

lemma errors_at_append:
  "errors_at (xs @ ys) field = (if field \<in> fst ` set xs then errors_at xs field else errors_at ys field)"
  by (induction xs) (auto simp: errors_at_def)

lemma errors_at_slug_errors:
  "errors_at (slug_errors c r) field =
     (case r of Inl error \<Rightarrow> if field = ''slug'' then [error\<lparr>code := Some c\<rparr>] else [] | Inr _ \<Rightarrow> [])"
  by (cases r) (auto simp: slug_errors_def errors_at_def)

lemma errors_at_invalid_errors:
  "errors_at (invalid_errors f attributes) field =
     (if field = f \<and> offending attributes \<noteq> [] then [invalid_error (offending attributes)] else [])"
  by (auto simp: invalid_errors_def errors_at_def)

lemma errors_at_duplicate_errors:
  "errors_at (duplicate_errors a r) field =
     (if field = ''attributes'' \<and> get_duplicates_ids a r \<noteq> {}
      then [duplicated_error (get_duplicates_ids a r)] else [])"
  by (auto simp: duplicate_errors_def errors_at_def)



lemma keys_slug_errors_eq: "fst ` set (slug_errors c r) = (if isl r then {''slug''} else {})"
  by (cases r) (simp_all add: slug_errors_def)

lemma keys_invalid_errors_eq:
  "fst ` set (invalid_errors f x) = (if offending x = [] then {} else {f})"
  by (simp add: invalid_errors_def)

lemma errors_at_all_slug:
  "errors_at (slug_errors c r @ invalid_errors ''add_attributes'' a
               @ invalid_errors ''remove_attributes'' b @ duplicate_errors a' b') ''slug'' =
     (case r of Inl error \<Rightarrow> [error\<lparr>code := Some c\<rparr>] | Inr _ \<Rightarrow> [])"
  by (cases r)
     (simp_all add: errors_at_append keys_slug_errors_eq keys_invalid_errors_eq errors_at_slug_errors
        errors_at_invalid_errors errors_at_duplicate_errors)

lemma errors_at_all_add:
  "errors_at (slug_errors c r @ invalid_errors ''add_attributes'' a
               @ invalid_errors ''remove_attributes'' b @ duplicate_errors a' b') ''add_attributes'' =
     (if offending a \<noteq> [] then [invalid_error (offending a)] else [])"
  by (simp add: errors_at_append keys_slug_errors_eq keys_invalid_errors_eq errors_at_slug_errors
        errors_at_invalid_errors errors_at_duplicate_errors split: sum.split)

lemma errors_at_all_remove:
  "errors_at (slug_errors c r @ invalid_errors ''add_attributes'' a
               @ invalid_errors ''remove_attributes'' b @ duplicate_errors a' b') ''remove_attributes'' =
     (if offending b \<noteq> [] then [invalid_error (offending b)] else [])"
  by (simp add: errors_at_append keys_slug_errors_eq keys_invalid_errors_eq errors_at_slug_errors
        errors_at_invalid_errors errors_at_duplicate_errors split: sum.split)

lemma errors_at_all_attributes:
  "errors_at (slug_errors c r @ invalid_errors ''add_attributes'' a
               @ invalid_errors ''remove_attributes'' b @ duplicate_errors a' b') ''attributes'' =
     (if get_duplicates_ids a' b' \<noteq> {} then [duplicated_error (get_duplicates_ids a' b')] else [])"
  by (simp add: errors_at_append keys_slug_errors_eq keys_invalid_errors_eq errors_at_slug_errors
        errors_at_invalid_errors errors_at_duplicate_errors split: sum.split)

lemma errors_at_two_slug:
  "errors_at (slug_errors c r @ invalid_errors ''add_attributes'' a) ''slug'' =
     (case r of Inl error \<Rightarrow> [error\<lparr>code := Some c\<rparr>] | Inr _ \<Rightarrow> [])"
  by (cases r)
     (simp_all add: errors_at_append keys_slug_errors_eq errors_at_slug_errors errors_at_invalid_errors)

lemma errors_at_two_add:
  "errors_at (slug_errors c r @ invalid_errors ''add_attributes'' a) ''add_attributes'' =
     (if offending a \<noteq> [] then [invalid_error (offending a)] else [])"
  by (simp add: errors_at_append keys_slug_errors_eq errors_at_slug_errors errors_at_invalid_errors
        split: sum.split)

lemma all_errors_Nil:
  "slug_errors c r @ invalid_errors f a @ invalid_errors g b @ duplicate_errors a' b' = [] \<longleftrightarrow>
     \<not> isl r \<and> offending a = [] \<and> offending b = [] \<and> get_duplicates_ids a' b' = {}"
  by (cases r) (simp_all add: slug_errors_def invalid_errors_def duplicate_errors_def)

lemma two_errors_Nil:
  "slug_errors c r @ invalid_errors f a = [] \<longleftrightarrow> \<not> isl r \<and> offending a = []"
  by (cases r) (simp_all add: slug_errors_def invalid_errors_def)


lemma PageTypeUpdate_clean_input_Inl:
  assumes "r = validate_slug instance ''name'' cleaned_input"
    and "c' = after_slug cleaned_input r"
    and "isl r \<or> offending (add_attributes c') \<noteq> [] \<or> offending (remove_attributes c') \<noteq> []
         \<or> get_duplicates_ids (add_attributes c') (remove_attributes c') \<noteq> {}"
  shows "PageTypeUpdate_clean_input validate_slug instance cleaned_input =
           Inl (slug_errors (Member REQUIRED) r
                @ invalid_errors ''add_attributes'' (add_attributes c')
                @ invalid_errors ''remove_attributes'' (remove_attributes c')
                @ duplicate_errors (add_attributes c') (remove_attributes c'))"
proof -
  have "slug_errors (Member REQUIRED) r
                @ invalid_errors ''add_attributes'' (add_attributes c')
                @ invalid_errors ''remove_attributes'' (remove_attributes c')
                @ duplicate_errors (add_attributes c') (remove_attributes c') \<noteq> []"
    using assms(3) unfolding all_errors_Nil by blast
  then show ?thesis
    unfolding PageTypeUpdate_clean_input_eq Let_def assms(1,2)[symmetric] by simp
qed

lemma PageTypeCreate_clean_input_Inl:
  assumes "r = validate_slug instance ''name'' cleaned_input"
    and "c' = after_slug cleaned_input r"
    and "isl r \<or> offending (add_attributes c') \<noteq> []"
  shows "PageTypeCreate_clean_input validate_slug instance cleaned_input =
           Inl (slug_errors (MemberValue REQUIRED) r
                @ invalid_errors ''add_attributes'' (add_attributes c'))"
proof -
  have "slug_errors (MemberValue REQUIRED) r
                @ invalid_errors ''add_attributes'' (add_attributes c') \<noteq> []"
    using assms(3) unfolding two_errors_Nil by blast
  then show ?thesis
    unfolding PageTypeCreate_clean_input_eq Let_def assms(1,2)[symmetric] by simp
qed

lemma PageTypeUpdate_clean_input_Inr:
  assumes "r = validate_slug instance ''name'' cleaned_input"
    and "c' = after_slug cleaned_input r"
    and "\<not> isl r" "offending (add_attributes c') = []" "offending (remove_attributes c') = []"
        "get_duplicates_ids (add_attributes c') (remove_attributes c') = {}"
  shows "PageTypeUpdate_clean_input validate_slug instance cleaned_input = Inr c'"
proof -
  have "slug_errors (Member REQUIRED) r
                @ invalid_errors ''add_attributes'' (add_attributes c')
                @ invalid_errors ''remove_attributes'' (remove_attributes c')
                @ duplicate_errors (add_attributes c') (remove_attributes c') = []"
    using assms(3-6) unfolding all_errors_Nil by blast
  then show ?thesis
    unfolding PageTypeUpdate_clean_input_eq Let_def assms(1,2)[symmetric] by simp
qed

lemma PageTypeCreate_clean_input_Inr:
  assumes "r = validate_slug instance ''name'' cleaned_input"
    and "c' = after_slug cleaned_input r"
    and "\<not> isl r" "offending (add_attributes c') = []"
  shows "PageTypeCreate_clean_input validate_slug instance cleaned_input = Inr c'"
proof -
  have "slug_errors (MemberValue REQUIRED) r
                @ invalid_errors ''add_attributes'' (add_attributes c') = []"
    using assms(3-4) unfolding two_errors_Nil by blast
  then show ?thesis
    unfolding PageTypeCreate_clean_input_eq Let_def assms(1,2)[symmetric] by simp
qed

subsection \<open>Accumulation of the validation errors\<close>

text \<open>
  C5. In \<open>PageTypeUpdate.clean_input\<close> and \<open>PageTypeCreate.clean_input\<close>, whenever at least
  one check fails the method raises one aggregated error, and that one mapping holds the
  error of every check that failed, each under its own field: the slug error (code
  \<open>REQUIRED\<close>) under \<open>slug\<close>, the wrong-kind errors under \<open>add_attributes\<close> and
  \<open>remove_attributes\<close>, the duplicate error under \<open>attributes\<close>. No check hides another.
\<close>

theorem clean_input_accumulates:
  "(let r = validate_slug instance ''name'' cleaned_input;
        cleaned_input' = after_slug cleaned_input r;
        add_attributes' = add_attributes cleaned_input';
        remove_attributes' = remove_attributes cleaned_input';
        duplicated_ids = get_duplicates_ids add_attributes' remove_attributes'
    in (isl r \<or> offending add_attributes' \<noteq> [] \<or> offending remove_attributes' \<noteq> [] \<or> duplicated_ids \<noteq> {}
        \<longrightarrow>
        (\<exists>errors. PageTypeUpdate_clean_input validate_slug instance cleaned_input = Inl errors
           \<and> (\<forall>error. r = Inl error \<longrightarrow>
                 errors_at errors ''slug'' = [error\<lparr>code := Some (Member REQUIRED)\<rparr>])
           \<and> (offending add_attributes' \<noteq> [] \<longrightarrow>
                 errors_at errors ''add_attributes'' = [invalid_error (offending add_attributes')])
           \<and> (offending remove_attributes' \<noteq> [] \<longrightarrow>
                 errors_at errors ''remove_attributes'' = [invalid_error (offending remove_attributes')])
           \<and> (duplicated_ids \<noteq> {} \<longrightarrow>
                 errors_at errors ''attributes'' = [duplicated_error duplicated_ids]))))
   \<and> (let r = validate_slug' instance' ''name'' data;
           data' = after_slug data r;
           add_attributes' = add_attributes data'
       in (isl r \<or> offending add_attributes' \<noteq> []
           \<longrightarrow>
           (\<exists>errors. PageTypeCreate_clean_input validate_slug' instance' data = Inl errors
              \<and> (\<forall>error. r = Inl error \<longrightarrow>
                    errors_at errors ''slug'' = [error\<lparr>code := Some (MemberValue REQUIRED)\<rparr>])
              \<and> (offending add_attributes' \<noteq> [] \<longrightarrow>
                    errors_at errors ''add_attributes'' = [invalid_error (offending add_attributes')]))))"
proof -
  have upd: "\<exists>errors. PageTypeUpdate_clean_input validate_slug instance cleaned_input = Inl errors
           \<and> (\<forall>error. r = Inl error \<longrightarrow>
                 errors_at errors ''slug'' = [error\<lparr>code := Some (Member REQUIRED)\<rparr>])
           \<and> (offending (add_attributes c') \<noteq> [] \<longrightarrow>
                 errors_at errors ''add_attributes'' = [invalid_error (offending (add_attributes c'))])
           \<and> (offending (remove_attributes c') \<noteq> [] \<longrightarrow>
                 errors_at errors ''remove_attributes'' = [invalid_error (offending (remove_attributes c'))])
           \<and> (get_duplicates_ids (add_attributes c') (remove_attributes c') \<noteq> {} \<longrightarrow>
                 errors_at errors ''attributes'' =
                   [duplicated_error (get_duplicates_ids (add_attributes c') (remove_attributes c'))])"
    if "r = validate_slug instance ''name'' cleaned_input" "c' = after_slug cleaned_input r"
       "isl r \<or> offending (add_attributes c') \<noteq> [] \<or> offending (remove_attributes c') \<noteq> []
         \<or> get_duplicates_ids (add_attributes c') (remove_attributes c') \<noteq> {}"
    for r c'
    unfolding PageTypeUpdate_clean_input_Inl [of r validate_slug "instance" cleaned_input c', OF that]
    by (simp add: errors_at_all_slug errors_at_all_add errors_at_all_remove errors_at_all_attributes)
  have cre: "\<exists>errors. PageTypeCreate_clean_input validate_slug' instance' data = Inl errors
              \<and> (\<forall>error. r = Inl error \<longrightarrow>
                    errors_at errors ''slug'' = [error\<lparr>code := Some (MemberValue REQUIRED)\<rparr>])
              \<and> (offending (add_attributes c') \<noteq> [] \<longrightarrow>
                    errors_at errors ''add_attributes'' = [invalid_error (offending (add_attributes c'))])"
    if "r = validate_slug' instance' ''name'' data" "c' = after_slug data r"
       "isl r \<or> offending (add_attributes c') \<noteq> []"
    for r c'
    unfolding PageTypeCreate_clean_input_Inl [of r validate_slug' instance' data c', OF that]
    by (simp add: errors_at_two_slug errors_at_two_add)
  show ?thesis
    unfolding Let_def using upd [OF refl refl] cre [OF refl refl] by blast
qed

theorem clean_input_accumulates_witness:
  "isl (page_type_validate_slug (\<lambda>i s. s) \<lparr>message = ''Slug is required.'', code = None, params = []\<rparr>
          () ''name''
          \<lparr>name = None, slug = None, add_attributes = Some [\<lparr>pk = 2, type = PRODUCT_TYPE\<rparr>],
           remove_attributes = Some [\<lparr>pk = 2, type = PRODUCT_TYPE\<rparr>]\<rparr>)
   \<and> (\<exists>errors.
         PageTypeUpdate_clean_input
           (page_type_validate_slug (\<lambda>i s. s) \<lparr>message = ''Slug is required.'', code = None, params = []\<rparr>)
           ()
           \<lparr>name = None, slug = None, add_attributes = Some [\<lparr>pk = 2, type = PRODUCT_TYPE\<rparr>],
            remove_attributes = Some [\<lparr>pk = 2, type = PRODUCT_TYPE\<rparr>]\<rparr> = Inl errors
         \<and> errors_at errors ''slug'' =
               [\<lparr>message = ''Slug is required.'', code = Some (Member REQUIRED), params = []\<rparr>]
         \<and> errors_at errors ''add_attributes'' =
               [invalid_error [\<lparr>pk = 2, type = PRODUCT_TYPE\<rparr>]]
         \<and> errors_at errors ''remove_attributes'' =
               [invalid_error [\<lparr>pk = 2, type = PRODUCT_TYPE\<rparr>]]
         \<and> errors_at errors ''attributes'' =
               [duplicated_error {\<lparr>pk = 2, type = PRODUCT_TYPE\<rparr>}])
   \<and> (\<exists>errors.
         PageTypeCreate_clean_input
           (page_type_validate_slug (\<lambda>i s. s) \<lparr>message = ''Slug is required.'', code = None, params = []\<rparr>)
           ()
           \<lparr>name = None, slug = None, add_attributes = Some [\<lparr>pk = 2, type = PRODUCT_TYPE\<rparr>]\<rparr> = Inl errors
         \<and> errors_at errors ''slug'' =
               [\<lparr>message = ''Slug is required.'', code = Some (MemberValue REQUIRED), params = []\<rparr>]
         \<and> errors_at errors ''add_attributes'' =
               [invalid_error [\<lparr>pk = 2, type = PRODUCT_TYPE\<rparr>]])"
  using clean_input_accumulates
    [of "page_type_validate_slug (\<lambda>i s. s) \<lparr>message = ''Slug is required.'', code = None, params = []\<rparr>"
        "()"
        "\<lparr>name = None, slug = None, add_attributes = Some [\<lparr>pk = 2, type = PRODUCT_TYPE\<rparr>],
           remove_attributes = Some [\<lparr>pk = 2, type = PRODUCT_TYPE\<rparr>]\<rparr>"
        "page_type_validate_slug (\<lambda>i s. s) \<lparr>message = ''Slug is required.'', code = None, params = []\<rparr>"
        "()"
        "\<lparr>name = None, slug = None, add_attributes = Some [\<lparr>pk = 2, type = PRODUCT_TYPE\<rparr>]\<rparr>"]
  by (simp add: page_type_validate_slug_name after_slug_def offending_def get_duplicates_ids_def Let_def)

lemma PageTypeUpdate_clean_input_errors:
  assumes "PageTypeUpdate_clean_input validate_slug instance cleaned_input = Inl errors"
    and "r = validate_slug instance ''name'' cleaned_input"
    and "c' = after_slug cleaned_input r"
  shows "errors = slug_errors (Member REQUIRED) r
                @ invalid_errors ''add_attributes'' (add_attributes c')
                @ invalid_errors ''remove_attributes'' (remove_attributes c')
                @ duplicate_errors (add_attributes c') (remove_attributes c')"
  using assms(1) unfolding PageTypeUpdate_clean_input_eq Let_def assms(2,3)[symmetric]
  by (simp split: if_splits)

subsection \<open>Duplicate add/remove detection\<close>

text \<open>
  What \<open>PageTypeUpdate.clean_input\<close> does with the \<open>add_attributes\<close> and \<open>remove_attributes\<close>
  collections the duplicate check reads: if their intersection is not empty, the method
  raises, and the raised mapping holds under the key \<open>attributes\<close> exactly one error, of
  code \<open>DUPLICATED_INPUT_ITEM\<close>, whose parameters are exactly the entries found in both
  collections; if the intersection is empty, nothing is put under \<open>attributes\<close>. The
  entries are the attribute entities the cleaned input holds for the ids of the request.
\<close>

theorem duplicate_entries_rejected:
  "(let cleaned_input' = after_slug cleaned_input (validate_slug instance ''name'' cleaned_input);
        duplicated_ids =
          get_duplicates_ids (add_attributes cleaned_input') (remove_attributes cleaned_input')
    in (duplicated_ids \<noteq> {} \<longrightarrow>
          (\<exists>errors. PageTypeUpdate_clean_input validate_slug instance cleaned_input = Inl errors
             \<and> errors_at errors ''attributes'' =
                 [\<lparr>message = ''The same object cannot be in both listfor adding and removing items.'',
                   code = Some (MemberValue DUPLICATED_INPUT_ITEM),
                   params = [(''attributes'', Duplicates duplicated_ids)]\<rparr>]))
       \<and> (duplicated_ids = {} \<longrightarrow>
          (\<forall>errors. PageTypeUpdate_clean_input validate_slug instance cleaned_input = Inl errors
             \<longrightarrow> errors_at errors ''attributes'' = [])))
   \<and> get_duplicates_ids (Some xs) (Some ys) = set xs \<inter> set ys
   \<and> get_duplicates_ids None (Some ys) = {}
   \<and> get_duplicates_ids (Some xs) None = {}
   \<and> get_duplicates_ids None None = {}"
proof -
  let ?r = "validate_slug instance ''name'' cleaned_input"
  let ?c = "after_slug cleaned_input ?r"
  let ?d = "get_duplicates_ids (add_attributes ?c) (remove_attributes ?c)"
  have pos: "\<exists>errors. PageTypeUpdate_clean_input validate_slug instance cleaned_input = Inl errors
             \<and> errors_at errors ''attributes'' = [duplicated_error ?d]" if "?d \<noteq> {}"
  proof -
    have "PageTypeUpdate_clean_input validate_slug instance cleaned_input =
           Inl (slug_errors (Member REQUIRED) ?r
                @ invalid_errors ''add_attributes'' (add_attributes ?c)
                @ invalid_errors ''remove_attributes'' (remove_attributes ?c)
                @ duplicate_errors (add_attributes ?c) (remove_attributes ?c))"
      using that by (intro PageTypeUpdate_clean_input_Inl [OF refl refl]) blast
    then show ?thesis
      using that by (simp add: errors_at_all_attributes)
  qed
  have neg: "errors_at errors ''attributes'' = []"
    if "?d = {}" "PageTypeUpdate_clean_input validate_slug instance cleaned_input = Inl errors"
    for errors
    unfolding PageTypeUpdate_clean_input_errors [OF that(2) refl refl]
    using that(1) by (simp add: errors_at_all_attributes)
  have ids: "get_duplicates_ids (Some xs) (Some ys) = set xs \<inter> set ys"
    "get_duplicates_ids None (Some ys) = {}" "get_duplicates_ids (Some xs) None = {}"
    "get_duplicates_ids None None = {}"
    by (simp_all add: get_duplicates_ids_def)
  show ?thesis
    unfolding Let_def using pos neg ids by (simp add: duplicated_error_def)
qed

theorem duplicate_entries_rejected_witness:
  "get_duplicates_ids (Some [\<lparr>pk = 1, type = PAGE_TYPE\<rparr>]) (Some [\<lparr>pk = 1, type = PAGE_TYPE\<rparr>]) \<noteq> {}
   \<and> (\<exists>errors.
         PageTypeUpdate_clean_input
           (page_type_validate_slug (\<lambda>i s. s) \<lparr>message = ''Slug is required.'', code = None, params = []\<rparr>)
           ()
           \<lparr>name = Some ''FAQ'', slug = None, add_attributes = Some [\<lparr>pk = 1, type = PAGE_TYPE\<rparr>],
            remove_attributes = Some [\<lparr>pk = 1, type = PAGE_TYPE\<rparr>]\<rparr> = Inl errors
         \<and> errors_at errors ''attributes'' =
              [\<lparr>message = ''The same object cannot be in both listfor adding and removing items.'',
                code = Some (MemberValue DUPLICATED_INPUT_ITEM),
                params = [(''attributes'', Duplicates {\<lparr>pk = 1, type = PAGE_TYPE\<rparr>})]\<rparr>])
   \<and> get_duplicates_ids (Some [\<lparr>pk = 1, type = PAGE_TYPE\<rparr>]) (Some [\<lparr>pk = 2, type = PRODUCT_TYPE\<rparr>]) = {}
   \<and> (\<exists>errors.
         PageTypeUpdate_clean_input
           (page_type_validate_slug (\<lambda>i s. s) \<lparr>message = ''Slug is required.'', code = None, params = []\<rparr>)
           ()
           \<lparr>name = Some ''FAQ'', slug = None, add_attributes = Some [\<lparr>pk = 1, type = PAGE_TYPE\<rparr>],
            remove_attributes = Some [\<lparr>pk = 2, type = PRODUCT_TYPE\<rparr>]\<rparr> = Inl errors
         \<and> errors_at errors ''remove_attributes'' = [invalid_error [\<lparr>pk = 2, type = PRODUCT_TYPE\<rparr>]]
         \<and> errors_at errors ''attributes'' = [])"
proof -
  let ?v = "page_type_validate_slug (\<lambda>(i::unit) s. s)
              \<lparr>message = ''Slug is required.'', code = None, params = []\<rparr>"
  let ?c1 = "\<lparr>name = Some ''FAQ'', slug = None, add_attributes = Some [\<lparr>pk = 1, type = PAGE_TYPE\<rparr>],
            remove_attributes = Some [\<lparr>pk = 1, type = PAGE_TYPE\<rparr>]\<rparr>"
  let ?c2 = "\<lparr>name = Some ''FAQ'', slug = None, add_attributes = Some [\<lparr>pk = 1, type = PAGE_TYPE\<rparr>],
            remove_attributes = Some [\<lparr>pk = 2, type = PRODUCT_TYPE\<rparr>]\<rparr>"
  have raised: "PageTypeUpdate_clean_input ?v () ?c2 =
      Inl [(''remove_attributes'', [invalid_error [\<lparr>pk = 2, type = PRODUCT_TYPE\<rparr>]])]"
    by (simp add: PageTypeUpdate_clean_input_eq page_type_validate_slug_name after_slug_def
          slug_errors_def invalid_errors_def duplicate_errors_def offending_def
          get_duplicates_ids_def Let_def)
  show ?thesis
    using duplicate_entries_rejected [of ?c1 ?v "()"] duplicate_entries_rejected [of ?c2 ?v "()"] raised
    by (simp add: page_type_validate_slug_name after_slug_def get_duplicates_ids_def Let_def
          errors_at_Cons)
qed

text \<open>
  C4. The claim is that the duplicate error carries exactly the intersecting ids as its
  parameters. The code does otherwise. \<open>clean_input\<close> hands \<open>check_for_duplicates\<close> the
  attribute entities of the two lists (the source notes, as a thing still to do, that the
  check should operate on ids, not on attributes), and the helper's result goes into
  \<open>params\<close> as it is: for a request that lists attribute 1 both to add and to remove, the one
  error under \<open>attributes\<close> has code \<open>DUPLICATED_INPUT_ITEM\<close> and carries the entity itself,
  not its id, whereas the error of \<open>validate_attributes\<close> for the same attribute carries its
  global id under the same parameter key.
\<close>

theorem check_for_duplicates_params_hold_entities:
  "PageTypeUpdate_clean_input
       (page_type_validate_slug (\<lambda>i s. s) \<lparr>message = ''Slug is required.'', code = None, params = []\<rparr>)
       ()
       \<lparr>name = Some ''FAQ'', slug = None, add_attributes = Some [\<lparr>pk = 1, type = PAGE_TYPE\<rparr>],
        remove_attributes = Some [\<lparr>pk = 1, type = PAGE_TYPE\<rparr>]\<rparr> =
     Inl [(''attributes'',
           [\<lparr>message = ''The same object cannot be in both listfor adding and removing items.'',
             code = Some (MemberValue DUPLICATED_INPUT_ITEM),
             params = [(''attributes'', Duplicates {\<lparr>pk = 1, type = PAGE_TYPE\<rparr>})]\<rparr>])]
   \<and> check_for_duplicates [] (Some [\<lparr>pk = 1, type = PAGE_TYPE\<rparr>]) (Some [\<lparr>pk = 1, type = PAGE_TYPE\<rparr>]) =
       [(''attributes'',
         [\<lparr>message = ''The same object cannot be in both listfor adding and removing items.'',
           code = Some (MemberValue DUPLICATED_INPUT_ITEM),
           params = [(''attributes'', Duplicates {\<lparr>pk = 1, type = PAGE_TYPE\<rparr>})]\<rparr>])]
   \<and> Duplicates {\<lparr>pk = 1, type = PAGE_TYPE\<rparr>} \<noteq> GlobalIds [to_global_id ''Attribute'' 1]
   \<and> validate_attributes [] (Some [\<lparr>pk = 1, type = PRODUCT_TYPE\<rparr>]) ''add_attributes'' =
       [(''add_attributes'',
         [\<lparr>message = ''Only page type attributes allowed.'',
           code = Some (MemberValue INVALID),
           params = [(''attributes'', GlobalIds [to_global_id ''Attribute'' 1])]\<rparr>])]"
  by (simp add: PageTypeUpdate_clean_input_eq page_type_validate_slug_name after_slug_def
        slug_errors_def invalid_errors_def duplicate_errors_def duplicated_error_def offending_def
        get_duplicates_ids_def check_for_duplicates_def validate_attributes_def Let_def)

lemma PageCreate_clean_input_Inl:
  "validate_slug instance ''title'' cleaned_input = Inl error \<Longrightarrow>
     PageCreate_clean_input validate_slug clean_seo_fields instance cleaned_input =
       Inl [(''slug'', [error\<lparr>code := Some (Member REQUIRED)\<rparr>])]"
  by (simp add: PageCreate_clean_input_def)

lemma PageCreate_clean_input_Inr:
  "validate_slug instance ''title'' cleaned_input = Inr cleaned_input' \<Longrightarrow>
     PageCreate_clean_input validate_slug clean_seo_fields instance cleaned_input =
       Inr (clean_seo_fields cleaned_input')"
  by (simp add: PageCreate_clean_input_def)

subsection \<open>Missing slug and source field\<close>

text \<open>
  C2. With the slug helper of the spec: for every cleaned input that gives neither a slug
  nor the source field (\<open>title\<close> for a page, \<open>name\<close> for a page type), \<open>clean_input\<close> of
  \<open>PageCreate\<close>, \<open>PageUpdate\<close>, \<open>PageTypeCreate\<close> and \<open>PageTypeUpdate\<close> raises, and the
  raised mapping holds under the field \<open>slug\<close> exactly the helper's error with its code set
  to \<open>REQUIRED\<close> (the member, or its value in \<open>PageTypeCreate\<close>).
\<close>

theorem missing_slug_and_source_required:
  "(PageInput.slug page_input = None \<and> PageInput.title page_input = None \<longrightarrow>
      PageCreate_clean_input (page_validate_slug generate_unique_slug slug_error)
          clean_seo_fields page page_input =
        Inl [(''slug'', [slug_error\<lparr>code := Some (Member REQUIRED)\<rparr>])]
      \<and> PageUpdate_clean_input (page_validate_slug generate_unique_slug slug_error)
          clean_seo_fields page page_input =
        Inl [(''slug'', [slug_error\<lparr>code := Some (Member REQUIRED)\<rparr>])])
   \<and> (PageTypeCreateInput.slug create_input = None \<and> name create_input = None \<longrightarrow>
        (\<exists>errors.
           PageTypeCreate_clean_input (page_type_validate_slug generate_unique_slug' slug_error)
               page_type create_input = Inl errors
           \<and> errors_at errors ''slug'' = [slug_error\<lparr>code := Some (MemberValue REQUIRED)\<rparr>]))
   \<and> (PageTypeCreateInput.slug update_input = None \<and> name update_input = None \<longrightarrow>
        (\<exists>errors.
           PageTypeUpdate_clean_input (page_type_validate_slug generate_unique_slug'' slug_error)
               page_type' update_input = Inl errors
           \<and> errors_at errors ''slug'' = [slug_error\<lparr>code := Some (Member REQUIRED)\<rparr>]))
   \<and> code_name (Member REQUIRED) = REQUIRED \<and> code_name (MemberValue REQUIRED) = REQUIRED"
proof -
  have page: "PageCreate_clean_input (page_validate_slug generate_unique_slug slug_error)
          clean_seo_fields page page_input =
        Inl [(''slug'', [slug_error\<lparr>code := Some (Member REQUIRED)\<rparr>])]"
    if "PageInput.slug page_input = None" "PageInput.title page_input = None"
    using that by (intro PageCreate_clean_input_Inl) (simp add: page_validate_slug_title)
  have cre: "\<exists>errors.
           PageTypeCreate_clean_input (page_type_validate_slug generate_unique_slug' slug_error)
               page_type create_input = Inl errors
           \<and> errors_at errors ''slug'' = [slug_error\<lparr>code := Some (MemberValue REQUIRED)\<rparr>]"
    if "PageTypeCreateInput.slug create_input = None" "name create_input = None"
    using that
    by (simp add: PageTypeCreate_clean_input_eq Let_def page_type_validate_slug_name
          slug_errors_def errors_at_Cons)
  have upd: "\<exists>errors.
           PageTypeUpdate_clean_input (page_type_validate_slug generate_unique_slug'' slug_error)
               page_type' update_input = Inl errors
           \<and> errors_at errors ''slug'' = [slug_error\<lparr>code := Some (Member REQUIRED)\<rparr>]"
    if "PageTypeCreateInput.slug update_input = None" "name update_input = None"
    using that
    by (simp add: PageTypeUpdate_clean_input_eq Let_def page_type_validate_slug_name
          slug_errors_def errors_at_Cons)
  show ?thesis
    using page cre upd by (simp add: PageUpdate_clean_input_def)
qed

theorem missing_slug_and_source_required_witness:
  "PageInput.slug \<lparr>PageInput.slug = None, title = None, content = Some ''About us'', content_json = None,
       is_published = None, publication_date = None, seo = None\<rparr> = None
   \<and> PageCreate_clean_input
        (page_validate_slug (\<lambda>i s. s) \<lparr>message = ''Slug is required.'', code = None, params = []\<rparr>)
        (\<lambda>c. c) ()
        \<lparr>PageInput.slug = None, title = None, content = Some ''About us'', content_json = None,
          is_published = None, publication_date = None, seo = None\<rparr> =
      Inl [(''slug'', [\<lparr>message = ''Slug is required.'', code = Some (Member REQUIRED), params = []\<rparr>])]
   \<and> (\<exists>errors.
         PageTypeCreate_clean_input
           (page_type_validate_slug (\<lambda>i s. s) \<lparr>message = ''Slug is required.'', code = None, params = []\<rparr>)
           () \<lparr>name = None, slug = None, add_attributes = None\<rparr> = Inl errors
         \<and> errors_at errors ''slug'' =
              [\<lparr>message = ''Slug is required.'', code = Some (MemberValue REQUIRED), params = []\<rparr>])
   \<and> (\<exists>errors.
         PageTypeUpdate_clean_input
           (page_type_validate_slug (\<lambda>i s. s) \<lparr>message = ''Slug is required.'', code = None, params = []\<rparr>)
           () \<lparr>name = None, slug = None, add_attributes = None, remove_attributes = None\<rparr> = Inl errors
         \<and> errors_at errors ''slug'' =
              [\<lparr>message = ''Slug is required.'', code = Some (Member REQUIRED), params = []\<rparr>])"
  using missing_slug_and_source_required
    [of "\<lparr>PageInput.slug = None, title = None, content = Some ''About us'', content_json = None,
          is_published = None, publication_date = None, seo = None\<rparr>"
        "\<lambda>i s. s" "\<lparr>message = ''Slug is required.'', code = None, params = []\<rparr>"
        "\<lambda>c. c" "()"
        "\<lparr>name = None, slug = None, add_attributes = None\<rparr>" "\<lambda>i s. s" "()"
        "\<lparr>name = None, slug = None, add_attributes = None, remove_attributes = None\<rparr>" "\<lambda>i s. s" "()"]
  by simp

subsection \<open>PageUpdate inherits the cleaning of PageCreate\<close>

text \<open>
  C10. \<open>PageUpdate\<close> cleans its input with the method it inherits from \<open>PageCreate\<close>: for
  every instance and input both give the same result, whatever the slug helper and the SEO
  cleaning are. With the slug helper of the spec that result is: the slug generated from
  the title when the slug is absent, the error of code \<open>REQUIRED\<close> under \<open>slug\<close> when both
  are absent, and in every successful case the input after the SEO cleaning.
\<close>

theorem PageUpdate_inherits_clean_input:
  "PageUpdate_clean_input validate_slug clean_seo_fields page cleaned_input =
     PageCreate_clean_input validate_slug clean_seo_fields page cleaned_input
   \<and> (\<forall>error. validate_slug page ''title'' cleaned_input = Inl error \<longrightarrow>
         PageUpdate_clean_input validate_slug clean_seo_fields page cleaned_input =
           Inl [(''slug'', [error\<lparr>code := Some (Member REQUIRED)\<rparr>])])
   \<and> (\<forall>cleaned_input'. validate_slug page ''title'' cleaned_input = Inr cleaned_input' \<longrightarrow>
         PageUpdate_clean_input validate_slug clean_seo_fields page cleaned_input =
           Inr (clean_seo_fields cleaned_input'))
   \<and> (\<forall>source. PageInput.slug page_input = None \<and> PageInput.title page_input = Some source \<longrightarrow>
         PageUpdate_clean_input (page_validate_slug generate_unique_slug slug_error)
             clean_seo_fields' page' page_input =
           Inr (clean_seo_fields' (page_input\<lparr>PageInput.slug := Some (generate_unique_slug page' source)\<rparr>)))
   \<and> (PageInput.slug page_input = None \<and> PageInput.title page_input = None \<longrightarrow>
         PageUpdate_clean_input (page_validate_slug generate_unique_slug slug_error)
             clean_seo_fields' page' page_input =
           Inl [(''slug'', [slug_error\<lparr>code := Some (Member REQUIRED)\<rparr>])])
   \<and> (PageInput.slug page_input \<noteq> None \<longrightarrow>
         PageUpdate_clean_input (page_validate_slug generate_unique_slug slug_error)
             clean_seo_fields' page' page_input =
           Inr (clean_seo_fields' page_input))"
  by (auto simp: PageUpdate_clean_input_def PageCreate_clean_input_def page_validate_slug_title)

theorem PageUpdate_inherits_clean_input_witness:
  "PageInput.slug \<lparr>PageInput.slug = None, title = Some ''About us'', content = None, content_json = None,
       is_published = None, publication_date = None, seo = None\<rparr> = None
   \<and> PageUpdate_clean_input
        (page_validate_slug (\<lambda>i s. s) \<lparr>message = ''Slug is required.'', code = None, params = []\<rparr>)
        (\<lambda>c. c) ()
        \<lparr>PageInput.slug = None, title = Some ''About us'', content = None, content_json = None,
          is_published = None, publication_date = None, seo = None\<rparr> =
      Inr \<lparr>PageInput.slug = Some ''About us'', title = Some ''About us'', content = None, content_json = None,
          is_published = None, publication_date = None, seo = None\<rparr>
   \<and> PageUpdate_clean_input
        (page_validate_slug (\<lambda>i s. s) \<lparr>message = ''Slug is required.'', code = None, params = []\<rparr>)
        (\<lambda>c. c) ()
        \<lparr>PageInput.slug = None, title = Some ''About us'', content = None, content_json = None,
          is_published = None, publication_date = None, seo = None\<rparr> =
      PageCreate_clean_input
        (page_validate_slug (\<lambda>i s. s) \<lparr>message = ''Slug is required.'', code = None, params = []\<rparr>)
        (\<lambda>c. c) ()
        \<lparr>PageInput.slug = None, title = Some ''About us'', content = None, content_json = None,
          is_published = None, publication_date = None, seo = None\<rparr>"
  using PageUpdate_inherits_clean_input
    [of "page_validate_slug (\<lambda>i s. s) \<lparr>message = ''Slug is required.'', code = None, params = []\<rparr>"
        "\<lambda>c. c" "()"
        "\<lparr>PageInput.slug = None, title = Some ''About us'', content = None, content_json = None,
          is_published = None, publication_date = None, seo = None\<rparr>"
        "\<lparr>PageInput.slug = None, title = Some ''About us'', content = None, content_json = None,
          is_published = None, publication_date = None, seo = None\<rparr>"
        "\<lambda>i s. s" "\<lparr>message = ''Slug is required.'', code = None, params = []\<rparr>"
        "\<lambda>c. c" "()"]
  by (auto simp add: page_validate_slug_title)

lemma perform_mutation_Inl:
  "clean_input instance data = Inl errors \<Longrightarrow>
     perform_mutation clean_input save save_m2m instance data = (instance, Inl errors)"
  by (simp add: perform_mutation_def)

lemma perform_mutation_Inr:
  "clean_input instance data = Inr cleaned_input \<Longrightarrow>
     perform_mutation clean_input save save_m2m instance data =
       (save_m2m (save instance cleaned_input) cleaned_input,
        Inr (save_m2m (save instance cleaned_input) cleaned_input))"
  by (simp add: perform_mutation_def Let_def)

lemma PageTypeUpdate_save_m2m_eq:
  "PageTypeUpdate_save_m2m super_save_m2m instance cleaned_data =
     (case add_attributes cleaned_data of
        None \<Rightarrow> super_save_m2m instance cleaned_data
      | Some attrs \<Rightarrow>
          page_attributes_add
            (page_attributes_remove (super_save_m2m instance cleaned_data) attrs) attrs)"
  by (simp add: PageTypeUpdate_save_m2m_def Let_def split: option.splits)

lemma PageTypeCreate_save_m2m_eq:
  "PageTypeCreate_save_m2m super_save_m2m instance cleaned_data =
     (case add_attributes cleaned_data of
        None \<Rightarrow> super_save_m2m instance cleaned_data
      | Some attrs \<Rightarrow> page_attributes_add (super_save_m2m instance cleaned_data) attrs)"
  by (simp add: PageTypeCreate_save_m2m_def Let_def split: option.splits)

subsection \<open>No persistence when validation fails\<close>

text \<open>
  C6. With the orchestration of the spec: whenever \<open>clean_input\<close> raises, the stored state
  after the invocation is the state before it (no save, no association step) and the
  response is the raised errors. In particular every violation caught by
  \<open>PageTypeUpdate.clean_input\<close> or \<open>PageTypeCreate.clean_input\<close> leaves the page type and its
  association set as they were.
\<close>

theorem validation_error_no_persistence:
  "(clean_input instance data = Inl errors \<longrightarrow>
      perform_mutation clean_input save save_m2m instance data = (instance, Inl errors))
   \<and> (let r = validate_slug page_type ''name'' cleaned_input;
           cleaned_input' = after_slug cleaned_input r
       in (isl r \<or> offending (add_attributes cleaned_input') \<noteq> []
           \<or> offending (remove_attributes cleaned_input') \<noteq> []
           \<or> get_duplicates_ids (add_attributes cleaned_input') (remove_attributes cleaned_input') \<noteq> {}
           \<longrightarrow>
           (\<exists>errors'.
              perform_mutation (PageTypeUpdate_clean_input validate_slug) save'
                  (PageTypeUpdate_save_m2m super_save_m2m) page_type cleaned_input =
                (page_type, Inl errors'))))
   \<and> (let r = validate_slug' page_type' ''name'' create_input;
           create_input' = after_slug create_input r
       in (isl r \<or> offending (add_attributes create_input') \<noteq> []
           \<longrightarrow>
           (\<exists>errors'.
              perform_mutation (PageTypeCreate_clean_input validate_slug') save''
                  (PageTypeCreate_save_m2m super_save_m2m') page_type' create_input =
                (page_type', Inl errors'))))"
proof -
  have upd: "\<exists>errors'.
              perform_mutation (PageTypeUpdate_clean_input validate_slug) save'
                  (PageTypeUpdate_save_m2m super_save_m2m) page_type cleaned_input =
                (page_type, Inl errors')"
    if "isl r \<or> offending (add_attributes c') \<noteq> [] \<or> offending (remove_attributes c') \<noteq> []
         \<or> get_duplicates_ids (add_attributes c') (remove_attributes c') \<noteq> {}"
      "r = validate_slug page_type ''name'' cleaned_input" "c' = after_slug cleaned_input r"
    for r c'
    using PageTypeUpdate_clean_input_Inl [of r validate_slug page_type cleaned_input c', OF that(2,3,1)]
    by (simp add: perform_mutation_Inl)
  have cre: "\<exists>errors'.
              perform_mutation (PageTypeCreate_clean_input validate_slug') save''
                  (PageTypeCreate_save_m2m super_save_m2m') page_type' create_input =
                (page_type', Inl errors')"
    if "isl r \<or> offending (add_attributes c') \<noteq> []"
      "r = validate_slug' page_type' ''name'' create_input" "c' = after_slug create_input r"
    for r c'
    using PageTypeCreate_clean_input_Inl [of r validate_slug' page_type' create_input c', OF that(2,3,1)]
    by (simp add: perform_mutation_Inl)
  show ?thesis
    unfolding Let_def using upd [OF _ refl refl] cre [OF _ refl refl]
    by (simp add: perform_mutation_Inl)
qed

theorem validation_error_no_persistence_witness:
  "get_duplicates_ids (Some [\<lparr>pk = 1, type = PAGE_TYPE\<rparr>]) (Some [\<lparr>pk = 1, type = PAGE_TYPE\<rparr>]) \<noteq> {}
   \<and> (\<exists>errors.
         perform_mutation
           (PageTypeUpdate_clean_input
              (page_type_validate_slug (\<lambda>i s. s) \<lparr>message = ''Slug is required.'', code = None, params = []\<rparr>))
           (\<lambda>page_type cleaned_input. page_type)
           (PageTypeUpdate_save_m2m (\<lambda>page_type cleaned_data. page_type))
           \<lparr>page_attributes = {5}\<rparr>
           \<lparr>name = Some ''FAQ'', slug = None, add_attributes = Some [\<lparr>pk = 1, type = PAGE_TYPE\<rparr>],
            remove_attributes = Some [\<lparr>pk = 1, type = PAGE_TYPE\<rparr>]\<rparr> =
         (\<lparr>page_attributes = {5}\<rparr>, Inl errors))
   \<and> (\<exists>errors.
         perform_mutation
           (PageTypeCreate_clean_input
              (page_type_validate_slug (\<lambda>i s. s) \<lparr>message = ''Slug is required.'', code = None, params = []\<rparr>))
           (\<lambda>page_type cleaned_input. page_type)
           (PageTypeCreate_save_m2m (\<lambda>page_type cleaned_data. page_type))
           \<lparr>page_attributes = {}\<rparr>
           \<lparr>name = None, slug = None, add_attributes = Some [\<lparr>pk = 1, type = PAGE_TYPE\<rparr>]\<rparr> =
         (\<lparr>page_attributes = {}\<rparr>, Inl errors))"
  using validation_error_no_persistence
    [of "\<lambda>(i::unit) (d::unit). Inl []" "()" "()" "[]" "\<lambda>(i::unit) (c::unit). i" "\<lambda>(i::unit) (c::unit). i"
        "page_type_validate_slug (\<lambda>i s. s) \<lparr>message = ''Slug is required.'', code = None, params = []\<rparr>"
        "\<lparr>page_attributes = {5}\<rparr>"
        "\<lparr>name = Some ''FAQ'', slug = None, add_attributes = Some [\<lparr>pk = 1, type = PAGE_TYPE\<rparr>],
            remove_attributes = Some [\<lparr>pk = 1, type = PAGE_TYPE\<rparr>]\<rparr>"
        "\<lambda>page_type cleaned_input. page_type" "\<lambda>page_type cleaned_data. page_type"
        "page_type_validate_slug (\<lambda>i s. s) \<lparr>message = ''Slug is required.'', code = None, params = []\<rparr>"
        "\<lparr>page_attributes = {}\<rparr>"
        "\<lparr>name = None, slug = None, add_attributes = Some [\<lparr>pk = 1, type = PAGE_TYPE\<rparr>]\<rparr>"
        "\<lambda>page_type cleaned_input. page_type" "\<lambda>page_type cleaned_data. page_type"]
  by (simp add: page_type_validate_slug_name after_slug_def get_duplicates_ids_def Let_def)

subsection \<open>Associations after a successful creation\<close>

text \<open>
  C8. With the orchestration of the spec: for every \<open>pageTypeCreate\<close> request whose slug/name
  validation succeeds and whose \<open>add_attributes\<close> are all of kind \<open>PAGE_TYPE\<close>, the mutation
  succeeds; the resulting page type is the persisted one with every listed attribute added
  to its association set, and when \<open>add_attributes\<close> is absent it is the persisted one as it
  is (no association step).
\<close>

theorem page_type_create_adds_attributes:
  "validate_slug page_type ''name'' data = Inr cleaned_input
   \<and> offending (add_attributes cleaned_input) = [] \<longrightarrow>
     (let persisted = super_save_m2m (save page_type cleaned_input) cleaned_input;
          page_type' = PageTypeCreate_save_m2m super_save_m2m (save page_type cleaned_input) cleaned_input
      in perform_mutation (PageTypeCreate_clean_input validate_slug) save
             (PageTypeCreate_save_m2m super_save_m2m) page_type data = (page_type', Inr page_type')
         \<and> (\<forall>attrs. add_attributes cleaned_input = Some attrs \<longrightarrow>
               page_type' = page_attributes_add persisted attrs
               \<and> page_attributes page_type' = page_attributes persisted \<union> pk ` set attrs
               \<and> (\<forall>attr \<in> set attrs. pk attr \<in> page_attributes page_type'))
         \<and> (add_attributes cleaned_input = None \<longrightarrow> page_type' = persisted))"
proof -
  have "PageTypeCreate_clean_input validate_slug page_type data = Inr cleaned_input"
    if "validate_slug page_type ''name'' data = Inr cleaned_input"
       "offending (add_attributes cleaned_input) = []"
    using that
    by (simp add: PageTypeCreate_clean_input_eq Let_def after_slug_def slug_errors_def invalid_errors_def)
  then show ?thesis
    by (auto simp: perform_mutation_Inr PageTypeCreate_save_m2m_eq page_attributes_add_def Let_def)
qed

theorem page_type_create_adds_attributes_witness:
  "page_type_validate_slug (\<lambda>i s. s) \<lparr>message = ''Slug is required.'', code = None, params = []\<rparr>
       \<lparr>page_attributes = {}\<rparr> ''name''
       \<lparr>name = Some ''FAQ'', slug = None, add_attributes = Some [\<lparr>pk = 1, type = PAGE_TYPE\<rparr>]\<rparr> =
     Inr \<lparr>name = Some ''FAQ'', slug = Some ''FAQ'', add_attributes = Some [\<lparr>pk = 1, type = PAGE_TYPE\<rparr>]\<rparr>
   \<and> offending (Some [\<lparr>pk = 1, type = PAGE_TYPE\<rparr>]) = []
   \<and> perform_mutation
         (PageTypeCreate_clean_input
            (page_type_validate_slug (\<lambda>i s. s) \<lparr>message = ''Slug is required.'', code = None, params = []\<rparr>))
         (\<lambda>page_type cleaned_input. page_type)
         (PageTypeCreate_save_m2m (\<lambda>page_type cleaned_data. page_type))
         \<lparr>page_attributes = {}\<rparr>
         \<lparr>name = Some ''FAQ'', slug = None, add_attributes = Some [\<lparr>pk = 1, type = PAGE_TYPE\<rparr>]\<rparr> =
       (\<lparr>page_attributes = {1}\<rparr>, Inr \<lparr>page_attributes = {1}\<rparr>)"
  using page_type_create_adds_attributes
    [of "page_type_validate_slug (\<lambda>i s. s) \<lparr>message = ''Slug is required.'', code = None, params = []\<rparr>"
        "\<lparr>page_attributes = {}\<rparr>"
        "\<lparr>name = Some ''FAQ'', slug = None, add_attributes = Some [\<lparr>pk = 1, type = PAGE_TYPE\<rparr>]\<rparr>"
        "\<lparr>name = Some ''FAQ'', slug = Some ''FAQ'', add_attributes = Some [\<lparr>pk = 1, type = PAGE_TYPE\<rparr>]\<rparr>"
        "\<lambda>page_type cleaned_data. page_type" "\<lambda>page_type cleaned_input. page_type"]
  by (simp add: page_type_validate_slug_name offending_def page_attributes_add_def Let_def)

subsection \<open>The association step of the update\<close>

text \<open>
  C9. \<open>PageTypeUpdate._save_m2m\<close> reads only the \<open>add_attributes\<close> value: after the base
  class's step it removes the attributes of the add list and then adds them again; the
  \<open>remove_attributes\<close> value has no part in the result. When the input has no
  \<open>add_attributes\<close>, whatever \<open>remove_attributes\<close> holds, neither branch runs and the page
  type with its association set is left as the base class's step left it (unchanged, when
  that step changes nothing).
\<close>

theorem PageTypeUpdate_save_m2m_ignores_remove_list:
  "PageTypeUpdate_save_m2m super_save_m2m page_type cleaned_data =
     (case add_attributes cleaned_data of
        None \<Rightarrow> super_save_m2m page_type cleaned_data
      | Some attrs \<Rightarrow>
          page_attributes_add
            (page_attributes_remove (super_save_m2m page_type cleaned_data) attrs) attrs)
   \<and> (\<forall>attrs. add_attributes cleaned_data = Some attrs \<longrightarrow>
         page_attributes (PageTypeUpdate_save_m2m super_save_m2m page_type cleaned_data) =
           page_attributes (super_save_m2m page_type cleaned_data) - pk ` set attrs \<union> pk ` set attrs)
   \<and> (add_attributes cleaned_data = None \<longrightarrow>
         PageTypeUpdate_save_m2m super_save_m2m page_type cleaned_data =
           super_save_m2m page_type cleaned_data)
   \<and> (add_attributes cleaned_data = None \<longrightarrow>
         PageTypeUpdate_save_m2m (\<lambda>instance cleaned_data. instance) page_type' cleaned_data = page_type')"
  by (simp add: PageTypeUpdate_save_m2m_eq page_attributes_add_def page_attributes_remove_def)

theorem PageTypeUpdate_save_m2m_ignores_remove_list_witness:
  "add_attributes \<lparr>name = None, slug = Some ''faq'', add_attributes = None,
       remove_attributes = Some [\<lparr>pk = 3, type = PAGE_TYPE\<rparr>]\<rparr> = None
   \<and> PageTypeUpdate_save_m2m (\<lambda>page_type cleaned_data. page_type) \<lparr>page_attributes = {3, 4}\<rparr>
         \<lparr>name = None, slug = Some ''faq'', add_attributes = None,
          remove_attributes = Some [\<lparr>pk = 3, type = PAGE_TYPE\<rparr>]\<rparr> = \<lparr>page_attributes = {3, 4}\<rparr>"
  using PageTypeUpdate_save_m2m_ignores_remove_list
    [of "\<lambda>page_type cleaned_data. page_type" "\<lparr>page_attributes = {3, 4}\<rparr>"
        "\<lparr>name = None, slug = Some ''faq'', add_attributes = None,
          remove_attributes = Some [\<lparr>pk = 3, type = PAGE_TYPE\<rparr>]\<rparr>"
        "\<lparr>page_attributes = {3, 4}\<rparr>"]
  by simp

subsection \<open>Removal of the listed attributes\<close>

text \<open>
  C1. The claim is that the update removes the attributes listed in \<open>remove_attributes\<close> and
  then adds those listed in \<open>add_attributes\<close>. The code does otherwise. An update whose input
  lists attribute 1 for removal and no attribute to add passes validation, and the
  association step leaves attribute 1 associated; with attribute 2 to add and attribute 1
  to remove, the page type ends with both.
\<close>

theorem PageTypeUpdate_save_m2m_keeps_listed_attribute:
  "PageTypeUpdate_clean_input
       (page_type_validate_slug (\<lambda>i s. s) \<lparr>message = ''Slug is required.'', code = None, params = []\<rparr>)
       \<lparr>page_attributes = {1}\<rparr>
       \<lparr>name = None, slug = Some ''faq'', add_attributes = None,
        remove_attributes = Some [\<lparr>pk = 1, type = PAGE_TYPE\<rparr>]\<rparr> =
     Inr \<lparr>name = None, slug = Some ''faq'', add_attributes = None,
          remove_attributes = Some [\<lparr>pk = 1, type = PAGE_TYPE\<rparr>]\<rparr>
   \<and> page_attributes
         (PageTypeUpdate_save_m2m (\<lambda>page_type cleaned_data. page_type) \<lparr>page_attributes = {1}\<rparr>
            \<lparr>name = None, slug = Some ''faq'', add_attributes = None,
             remove_attributes = Some [\<lparr>pk = 1, type = PAGE_TYPE\<rparr>]\<rparr>) = {1}
   \<and> page_attributes
         (PageTypeUpdate_save_m2m (\<lambda>page_type cleaned_data. page_type) \<lparr>page_attributes = {1}\<rparr>
            \<lparr>name = None, slug = Some ''faq'', add_attributes = Some [\<lparr>pk = 2, type = PAGE_TYPE\<rparr>],
             remove_attributes = Some [\<lparr>pk = 1, type = PAGE_TYPE\<rparr>]\<rparr>) = {1, 2}"
  by (simp add: PageTypeUpdate_clean_input_eq page_type_validate_slug_name after_slug_def
        slug_errors_def invalid_errors_def duplicate_errors_def offending_def get_duplicates_ids_def
        PageTypeUpdate_save_m2m_eq page_attributes_add_def page_attributes_remove_def Let_def
        insert_commute)

subsection \<open>The id argument of pageTypeUpdate\<close>

text \<open>
  C7. The claim is that \<open>pageTypeUpdate\<close> takes its \<open>id\<close> as the non-null type, as
  \<open>pageUpdate\<close> does. In the code \<open>PageTypeUpdate.Arguments\<close> declares \<open>id\<close> without
  \<open>required=True\<close>, so the schema exposes it as the nullable \<open>ID\<close>, whereas \<open>PageUpdate\<close> and
  \<open>PageDelete\<close> declare theirs required.
\<close>

theorem PageTypeUpdate_id_argument_nullable:
  "schema_type PageTypeUpdate_Arguments ''id'' = Some ID
   \<and> schema_type PageUpdate_Arguments ''id'' = Some (NonNull ID)
   \<and> schema_type PageDelete_Arguments ''id'' = Some (NonNull ID)
   \<and> schema_type PageTypeUpdate_Arguments ''input'' = Some (NonNull (InputObjectType ''PageTypeUpdateInput''))"
  by (simp add: schema_type_def argument_type_def PageTypeUpdate_Arguments_def
        PageUpdate_Arguments_def PageDelete_Arguments_def)

end
